theory Spec2Isabelle
  imports Complex_Main "HOL-Library.Multiset"
begin

section \<open>Ledger domain model (app/models.py)\<close>

text \<open>
  Monetary columns are \<open>DecimalField(max_digits=18, decimal_places=2)\<close>. A value of
  such a column is a whole number of hundredths; the model stores that number as an
  \<open>int\<close>, so \<open>100.00\<close> is \<open>10000\<close>. Amounts handed to the methods are values of
  the same kind. Python's \<open>Decimal\<close> comparison and addition are exact, and so are the
  ones of \<open>int\<close>.

  Exceptions are values: \<open>ValueError\<close> carries the message of the source, and the
  ORM's failures on a row that is not there are \<open>DoesNotExist\<close> (from \<open>get\<close> and
  \<open>refresh_from_db\<close>) and \<open>DatabaseError\<close> (from \<open>save(update_fields=...)\<close>).
  The last four exceptions are raised by library calls of the other modules.
  A function that raises inside \<open>transaction.atomic()\<close> returns the error only: the
  database is the one of the call.
\<close>

datatype py_error =
    ValueError string
  | DoesNotExist
  | DatabaseError
  | MultipleResultsFound
  | TypeError
  | OverflowError
  | IntegrityError

text \<open>
  The table of accounts maps a primary key to the row's \<open>balance\<close> column; the other
  columns of \<open>Account\<close> are not read by the methods below. An \<open>Account\<close> instance in
  memory carries its primary key and the balance it last read.
\<close>

type_synonym account_table = "nat \<rightharpoonup> int"

record Account =
  pk :: nat
  balance :: int

text \<open>
  \<open>Account.credit\<close>: the relative update \<open>filter(pk=self.pk).update(balance=F("balance") + amount)\<close>
  changes the row if there is one, then \<open>refresh_from_db\<close> reads it back into \<open>self\<close>.
  The result is the database, the instance and the returned balance.
\<close>

definition credit :: "account_table \<Rightarrow> Account \<Rightarrow> int \<Rightarrow> py_error + (account_table \<times> Account \<times> int)" where
  "credit db self amount =
     (if amount < 0 then Inl (ValueError ''credit amount must be non-negative'')
      else
        let db' = (case db (pk self) of None \<Rightarrow> db | Some b \<Rightarrow> db(pk self \<mapsto> b + amount))
        in case db' (pk self) of
             None \<Rightarrow> Inl DoesNotExist
           | Some b \<Rightarrow> Inr (db', self\<lparr>balance := b\<rparr>, b))"

text \<open>
  \<open>Account.debit\<close>: \<open>select_for_update().get(pk=self.pk)\<close> reads the row \<open>a\<close>, the
  check is on \<open>a.balance\<close>, the save writes \<open>balance - amount\<close> and the refreshed value
  is copied into \<open>self\<close>.
\<close>

definition debit :: "account_table \<Rightarrow> Account \<Rightarrow> int \<Rightarrow> py_error + (account_table \<times> Account \<times> int)" where
  "debit db self amount =
     (if amount < 0 then Inl (ValueError ''debit amount must be non-negative'')
      else case db (pk self) of
             None \<Rightarrow> Inl DoesNotExist
           | Some a_balance \<Rightarrow>
               if a_balance < amount then Inl (ValueError ''insufficient funds'')
               else
                 let b = a_balance - amount
                 in Inr (db(pk self \<mapsto> b), self\<lparr>balance := b\<rparr>, b))"

text \<open>
  A caller's sequence of operations on one account. An operation that raises leaves the
  database and the instance as they were, and the caller goes on with the next one.
  \<open>run_ops\<close> returns, for each operation in turn, whether it succeeded and the stored
  balance after it, and the final database and instance.
\<close>

datatype account_op = Credit int | Debit int

fun apply_op :: "account_table \<Rightarrow> Account \<Rightarrow> account_op \<Rightarrow> py_error + (account_table \<times> Account \<times> int)" where
  "apply_op db self (Credit amount) = credit db self amount"
| "apply_op db self (Debit amount) = debit db self amount"

fun run_ops :: "account_table \<Rightarrow> Account \<Rightarrow> account_op list \<Rightarrow> (bool \<times> int option) list \<times> account_table \<times> Account" where
  "run_ops db self [] = ([], db, self)"
| "run_ops db self (x # xs) =
     (case apply_op db self x of
        Inl e \<Rightarrow> (case run_ops db self xs of (outs, r) \<Rightarrow> ((False, db (pk self)) # outs, r))
      | Inr (db', self', b) \<Rightarrow> (case run_ops db' self' xs of (outs, r) \<Rightarrow> ((True, db' (pk self)) # outs, r)))"

text \<open>The amounts of the successful credits and of the successful debits of a run.\<close>

fun credited :: "account_op list \<Rightarrow> (bool \<times> int option) list \<Rightarrow> int" where
  "credited (Credit n # xs) ((ok, b) # outs) = (if ok then n else 0) + credited xs outs"
| "credited (Debit n # xs) (r # outs) = credited xs outs"
| "credited xs outs = 0"

fun debited :: "account_op list \<Rightarrow> (bool \<times> int option) list \<Rightarrow> int" where
  "debited (Debit n # xs) ((ok, b) # outs) = (if ok then n else 0) + debited xs outs"
| "debited (Credit n # xs) (r # outs) = debited xs outs"
| "debited xs outs = 0"


subsection \<open>Transactions and refunds\<close>

text \<open>
  \<open>PaymentTransaction.status\<close> takes one of the four \<open>STATUS_*\<close> constants. A row of
  \<open>PaymentTransaction\<close> holds the two nullable account references, the amount and the
  status; a row of \<open>Refund\<close> holds its id, the id of its transaction, the amount and the
  nullable \<open>processed_at\<close>. The ledger is the three tables; the refunds are a list of
  rows, since \<open>tx.refunds.all()\<close> reads every row of a transaction.
\<close>

datatype tx_status = STATUS_PENDING | STATUS_COMPLETED | STATUS_FAILED | STATUS_REFUNDED

record PaymentTransaction =
  from_account :: "nat option"
  to_account :: "nat option"
  tx_amount :: int
  tx_status :: tx_status

record Refund =
  refund_id :: nat
  transaction_id :: nat
  refund_amount :: int
  processed_at :: "nat option"

record ledger =
  accounts :: account_table
  transactions :: "nat \<rightharpoonup> PaymentTransaction"
  refunds :: "Refund list"

text \<open>
  \<open>tx.refunds.all()\<close>: the rows of \<open>Refund\<close> whose transaction is \<open>tx\<close>.
\<close>

definition refunds_all :: "Refund list \<Rightarrow> nat \<Rightarrow> Refund list" where
  "refunds_all rows tx_id = filter (\<lambda>r. transaction_id r = tx_id) rows"

text \<open>
  \<open>Refund.process\<close>. \<open>self\<close> is the refund instance, \<open>now\<close> the value the database
  gives \<open>Now()\<close>. \<open>self.transaction\<close> is read from the table when the method asks for
  it. The checks come in the order of the source: the status, the payer account
  \<open>dst\<close>, the receiver account \<open>src\<close>, the balance of the locked \<open>src\<close> row. Then the
  two relative updates, the stamp on the refund's row, the sum over all refunds of the
  transaction and the status update. The method returns \<open>self\<close>; the model returns the
  database with it.
\<close>

definition process :: "nat \<Rightarrow> ledger \<Rightarrow> Refund \<Rightarrow> py_error + (ledger \<times> Refund)" where
  "process now db self =
     (case transactions db (transaction_id self) of
        None \<Rightarrow> Inl DoesNotExist
      | Some tx \<Rightarrow>
          if tx_status tx \<noteq> STATUS_COMPLETED
          then Inl (ValueError ''can only refund completed transactions'')
          else case from_account tx of
            None \<Rightarrow> Inl (ValueError ''original payer account not available for refund'')
          | Some dst \<Rightarrow>
             (case to_account tx of
                None \<Rightarrow> Inl (ValueError ''source account for refund not available'')
              | Some src \<Rightarrow>
                 (case accounts db src of
                    None \<Rightarrow> Inl DoesNotExist
                  | Some src_balance \<Rightarrow>
                      if src_balance < refund_amount self
                      then Inl (ValueError ''insufficient funds in source account to process refund'')
                      else
                        let acc1 = (accounts db)(src \<mapsto> src_balance - refund_amount self)
                        in case acc1 dst of
                             None \<Rightarrow> Inl DatabaseError
                           | Some dst_balance \<Rightarrow>
                               if refund_id self \<notin> set (map refund_id (refunds db))
                               then Inl DatabaseError
                               else
                                 let acc2 = acc1(dst \<mapsto> dst_balance + refund_amount self);
                                     self' = self\<lparr>processed_at := Some now\<rparr>;
                                     rows = map (\<lambda>r. if refund_id r = refund_id self
                                                       then r\<lparr>processed_at := Some now\<rparr> else r)
                                                (refunds db);
                                     total_refunded =
                                       sum_list (map refund_amount (refunds_all rows (transaction_id self)));
                                     txs = (if total_refunded \<ge> tx_amount tx
                                            then (transactions db)(transaction_id self \<mapsto>
                                                    tx\<lparr>tx_status := STATUS_REFUNDED\<rparr>)
                                            else transactions db)
                                 in Inr (\<lparr>accounts = acc2, transactions = txs, refunds = rows\<rparr>, self'))))"

text \<open>
  The quantity the specification names: the sum of the amounts of the processed refunds
  of a transaction, those whose \<open>processed_at\<close> is set.
\<close>

definition spec_processed_total :: "ledger \<Rightarrow> nat \<Rightarrow> int" where
  "spec_processed_total db tx_id =
     sum_list (map refund_amount
       (filter (\<lambda>r. processed_at r \<noteq> None) (refunds_all (refunds db) tx_id)))"

text \<open>
  The scenario of the specification: a completed transaction of \<open>100.00\<close> from account 1
  to account 2, and two refunds of \<open>60.00\<close> each recorded against it, none processed.
\<close>

definition refund_a :: Refund where
  "refund_a = \<lparr>refund_id = 100, transaction_id = 10, refund_amount = 6000, processed_at = None\<rparr>"

definition refund_b :: Refund where
  "refund_b = \<lparr>refund_id = 101, transaction_id = 10, refund_amount = 6000, processed_at = None\<rparr>"

definition two_refunds_ledger :: ledger where
  "two_refunds_ledger =
     \<lparr>accounts = [1 \<mapsto> 0, 2 \<mapsto> 20000],
      transactions = [10 \<mapsto> \<lparr>from_account = Some 1, to_account = Some 2,
                              tx_amount = 10000, tx_status = STATUS_COMPLETED\<rparr>],
      refunds = [refund_a, refund_b]\<rparr>"


section \<open>Floats\<close>

text \<open>
  A Python \<open>float\<close> is a binary64 number. The finite ones are rationals, and the
  model takes them as \<open>rat\<close>. An operation on floats returns the exact result rounded
  to 53 significant bits, ties to the even neighbour: \<open>fl\<close>. The exponent is not
  bounded in the model, which is what binary64 does as long as a result is zero or of
  a magnitude from \<open>2 ^ -1022\<close> to below \<open>2 ^ 1024\<close>.

  \<open>round_half_even\<close> is the nearest integer, the even one of two that are equally
  near; it also is Python's \<open>round(x)\<close> for a float \<open>x\<close>. \<open>ulp x\<close> is the power of two
  \<open>u\<close> with \<open>2 ^ 52 \<le> x / u < 2 ^ 53\<close>, found by doubling or halving from 1.
\<close>

definition round_half_even :: "rat \<Rightarrow> int" where
  "round_half_even y =
     (let f = \<lfloor>y\<rfloor>; r = y - of_int f
      in if r < 1 / 2 then f else if r > 1 / 2 then f + 1 else if even f then f else f + 1)"

function ulp_up :: "rat \<Rightarrow> rat \<Rightarrow> rat" where
  "ulp_up x u = (if 0 < u \<and> x / u \<ge> 2 ^ 53 then ulp_up x (2 * u) else u)"
  by pat_completeness auto
termination
proof (relation "measure (\<lambda>(x, u). nat \<lfloor>x / u\<rfloor>)")
  show "wf (measure (\<lambda>(x, u). nat \<lfloor>x / u\<rfloor>))"
    by simp
next
  fix x u :: rat
  assume a: "0 < u \<and> 2 ^ 53 \<le> x / u"
  define q where "q = x / u"
  have "(1::rat) \<le> 2 ^ 53" by simp
  moreover from a have "2 ^ 53 \<le> q" unfolding q_def by (rule conjunct2)
  ultimately have q1: "1 \<le> q" by (rule order_trans)
  then have pos: "1 \<le> \<lfloor>q\<rfloor>"
    by (simp add: le_floor_iff)
  have "q < of_int \<lfloor>q\<rfloor> + 1" using floor_correct [of q] by simp
  moreover have "(1::rat) \<le> of_int \<lfloor>q\<rfloor>" using pos by (simp only: of_int_1_le_iff)
  ultimately have "q / 2 < of_int \<lfloor>q\<rfloor>" by linarith
  then have "\<lfloor>q / 2\<rfloor> < \<lfloor>q\<rfloor>"
    by (simp only: floor_less_iff)
  with pos have lt: "nat \<lfloor>q / 2\<rfloor> < nat \<lfloor>q\<rfloor>" by linarith
  have eq: "x / (2 * u) = q / 2" by (simp add: q_def)
  have "nat \<lfloor>x / (2 * u)\<rfloor> < nat \<lfloor>x / u\<rfloor>"
    unfolding eq using lt by (simp only: q_def)
  then show "((x, 2 * u), (x, u)) \<in> measure (\<lambda>(x, u). nat \<lfloor>x / u\<rfloor>)"
    unfolding in_measure by (simp only: prod.case)
qed

function ulp_down :: "rat \<Rightarrow> rat \<Rightarrow> rat" where
  "ulp_down x u = (if 0 < x \<and> 0 < u \<and> x / u < 2 ^ 52 then ulp_down x (u / 2) else u)"
  by pat_completeness auto
termination
proof (relation "measure (\<lambda>(x, u). nat \<lfloor>2 ^ 52 * u / x\<rfloor>)")
  show "wf (measure (\<lambda>(x, u). nat \<lfloor>2 ^ 52 * u / x\<rfloor>))"
    by simp
next
  fix x u :: rat
  assume a: "0 < x \<and> 0 < u \<and> x / u < 2 ^ 52"
  define q where "q = 2 ^ 52 * u / x"
  from a have x: "0 < x" and u: "0 < u" and xu: "x / u < 2 ^ 52"
    by blast+
  from xu u have "x < 2 ^ 52 * u"
    by (simp only: pos_divide_less_eq)
  then have "1 * x \<le> 2 ^ 52 * u"
    by simp
  with x have q1: "1 \<le> q"
    unfolding q_def by (simp only: pos_le_divide_eq)
  then have pos: "1 \<le> \<lfloor>q\<rfloor>"
    by (simp add: le_floor_iff)
  have "q < of_int \<lfloor>q\<rfloor> + 1" using floor_correct [of q] by simp
  moreover have "(1::rat) \<le> of_int \<lfloor>q\<rfloor>" using pos by (simp only: of_int_1_le_iff)
  ultimately have "q / 2 < of_int \<lfloor>q\<rfloor>" by linarith
  then have "\<lfloor>q / 2\<rfloor> < \<lfloor>q\<rfloor>"
    by (simp only: floor_less_iff)
  with pos have lt: "nat \<lfloor>q / 2\<rfloor> < nat \<lfloor>q\<rfloor>" by linarith
  have eq: "2 ^ 52 * (u / 2) / x = q / 2" by (simp add: q_def)
  have "nat \<lfloor>2 ^ 52 * (u / 2) / x\<rfloor> < nat \<lfloor>2 ^ 52 * u / x\<rfloor>"
    unfolding eq using lt by (simp only: q_def)
  then show "((x, u / 2), (x, u)) \<in> measure (\<lambda>(x, u). nat \<lfloor>2 ^ 52 * u / x\<rfloor>)"
    unfolding in_measure by (simp only: prod.case)
qed

declare ulp_up.simps [simp del] ulp_down.simps [simp del]

definition ulp :: "rat \<Rightarrow> rat" where
  "ulp x = (if x \<ge> 2 ^ 53 then ulp_up x 1 else ulp_down x 1)"

definition fl :: "rat \<Rightarrow> rat" where
  "fl x = (if x = 0 then 0 else of_int (round_half_even (x / ulp \<bar>x\<bar>)) * ulp \<bar>x\<bar>)"

text \<open>
  The conversion of an \<open>int\<close> to a float, as an arithmetic operator does it for its
  \<open>int\<close> operand, and the float of the literal \<open>1e-6\<close>.
\<close>

definition float_of_int :: "int \<Rightarrow> rat" where
  "float_of_int n = fl (of_int n)"

definition float_1e_6 :: rat where
  "float_1e_6 = fl (1 / 10 ^ 6)"


section \<open>Payment CRUD service (app/main.py)\<close>

text \<open>
  A Python \<open>str\<close> is modelled by the bytes of its UTF-8 encoding, a \<open>string\<close>: two
  strings are equal when their encodings are, and concatenation is the one of the
  encodings. \<open>str.lower\<close> is modelled on the ASCII letters, which are all the four
  status names use.
\<close>

definition lower_char :: "char \<Rightarrow> char" where
  "lower_char c = (let n = (of_char c :: nat) in if 65 \<le> n \<and> n \<le> 90 then char_of (n + 32) else c)"

definition lower :: "string \<Rightarrow> string" where
  "lower s = map lower_char s"

text \<open>
  A row of the table \<open>payments\<close>. \<open>created_at\<close> is a point in time, counted in
  microseconds. The table is the list of its rows.
\<close>

record PaymentORM =
  orm_id :: string
  amount_cents :: int
  orm_currency :: string
  orm_method :: string
  orm_status :: string
  orm_description :: "string option"
  orm_created_at :: int

text \<open>
  The response model. Its \<open>amount\<close> is the float \<open>amount_cents / 100.0\<close>.
\<close>

record PaymentRead =
  read_id :: string
  read_amount :: rat
  read_currency :: string
  read_method :: string
  read_status :: string
  read_description :: "string option"
  read_created_at :: int

definition payment_read :: "PaymentORM \<Rightarrow> PaymentRead" where
  "payment_read r =
     \<lparr>read_id = orm_id r, read_amount = fl (float_of_int (amount_cents r) / 100),
      read_currency = orm_currency r, read_method = orm_method r,
      read_status = orm_status r, read_description = orm_description r,
      read_created_at = orm_created_at r\<rparr>"

text \<open>
  What a request can end in other than its response: an \<open>HTTPException\<close> with its
  status code and detail, the rejection of a parameter or body by its declared
  constraints, or an exception that no handler catches.
\<close>

datatype http_error =
    HTTPException nat string
  | RequestValidationError string
  | Uncaught py_error

text \<open>
  \<open>PaymentStatus\<close> and the validator of \<open>PaymentUpdate.status\<close>: the value is
  lower-cased and must be one of the four names.
\<close>

definition PENDING :: string where "PENDING = ''pending''"
definition COMPLETED :: string where "COMPLETED = ''completed''"
definition FAILED :: string where "FAILED = ''failed''"
definition REFUNDED :: string where "REFUNDED = ''refunded''"

record PaymentUpdate =
  upd_description :: "string option"
  upd_status :: "string option"

definition validate_status :: "string option \<Rightarrow> http_error + string option" where
  "validate_status v =
     (case v of
        None \<Rightarrow> Inr None
      | Some s \<Rightarrow>
          if lower s \<in> {PENDING, COMPLETED, FAILED, REFUNDED} then Inr (Some (lower s))
          else Inl (RequestValidationError ''status must be one of the allowed values''))"

text \<open>
  \<open>db.execute(stmt).scalar_one()\<close> for the selection by id: exactly one row, or
  \<open>NoResultFound\<close>, which the handlers turn into a 404; a second row would raise
  \<open>MultipleResultsFound\<close>, which they do not catch.
\<close>

definition scalar_one :: "PaymentORM list \<Rightarrow> string \<Rightarrow> http_error + PaymentORM" where
  "scalar_one db payment_id =
     (case filter (\<lambda>r. orm_id r = payment_id) db of
        [] \<Rightarrow> Inl (HTTPException 404 ''payment not found'')
      | [r] \<Rightarrow> Inr r
      | _ \<Rightarrow> Inl (Uncaught MultipleResultsFound))"

text \<open>The dictionary \<open>allowed_transitions\<close> and its \<open>get(current, set())\<close>.\<close>

definition allowed_transitions :: "(string \<times> string set) list" where
  "allowed_transitions =
     [(PENDING, {COMPLETED, FAILED, REFUNDED}),
      (COMPLETED, {REFUNDED}),
      (FAILED, {}),
      (REFUNDED, {})]"

definition allowed_from :: "string \<Rightarrow> string set" where
  "allowed_from current = (case map_of allowed_transitions current of None \<Rightarrow> {} | Some s \<Rightarrow> s)"

text \<open>
  \<open>update_payment\<close>. The row is changed in the session and written by \<open>db.commit()\<close>;
  a request that raises before the commit leaves the table as it was, and the model
  returns the error alone. On success it returns the new table and the response.
\<close>

definition update_payment :: "PaymentORM list \<Rightarrow> string \<Rightarrow> PaymentUpdate \<Rightarrow> http_error + (PaymentORM list \<times> PaymentRead)" where
  "update_payment db payment_id payload =
     (case scalar_one db payment_id of
        Inl e \<Rightarrow> Inl e
      | Inr result \<Rightarrow>
          let result1 = (case upd_description payload of
                           None \<Rightarrow> result
                         | Some d \<Rightarrow> result\<lparr>orm_description := Some d\<rparr>)
          in case upd_status payload of
               None \<Rightarrow>
                 Inr (map (\<lambda>r. if orm_id r = payment_id then result1 else r) db, payment_read result1)
             | Some new_status \<Rightarrow>
                 let current = orm_status result1
                 in if new_status \<notin> allowed_from current \<and> new_status \<noteq> current
                    then Inl (HTTPException 400
                           (''invalid status transition from '' @ current @ '' to '' @ new_status))
                    else
                      let result2 = result1\<lparr>orm_status := new_status\<rparr>
                      in Inr (map (\<lambda>r. if orm_id r = payment_id then result2 else r) db,
                              payment_read result2))"



text \<open>
  The request model \<open>PaymentCreate\<close>. The model checks its \<open>amount\<close>: the bound
  \<open>gt=0\<close> of the field, then the root validator \<open>check_amount_precision\<close>, which
  compares in floats. The other fields are taken as they stand after their own
  validation (the currency upper-cased).
\<close>

record PaymentCreate =
  create_amount :: rat
  create_currency :: string
  create_method :: string
  create_description :: "string option"

definition check_amount_precision :: "rat \<Rightarrow> http_error + rat" where
  "check_amount_precision amount =
     (let cents = round_half_even (fl (amount * float_of_int 100))
      in if \<bar>fl (fl (amount * float_of_int 100) - float_of_int cents)\<bar> > float_1e_6
         then Inl (RequestValidationError ''amount must have at most 2 decimal places'')
         else Inr amount)"

definition validate_amount :: "rat \<Rightarrow> http_error + rat" where
  "validate_amount amount =
     (if \<not> amount > 0 then Inl (RequestValidationError ''ensure this value is greater than 0'')
      else check_amount_precision amount)"

text \<open>
  \<open>create_payment\<close>, with the fresh identifier and the time as arguments. The commit
  adds the row; it raises for an identifier the table has already and for a number of
  cents outside the 64-bit integers of the column.
\<close>

definition create_payment :: "PaymentORM list \<Rightarrow> string \<Rightarrow> int \<Rightarrow> PaymentCreate \<Rightarrow> http_error + (PaymentORM list \<times> PaymentRead)" where
  "create_payment db payment_id utcnow payload =
     (let orm = \<lparr>orm_id = payment_id,
                 amount_cents = round_half_even (fl (create_amount payload * float_of_int 100)),
                 orm_currency = create_currency payload, orm_method = create_method payload,
                 orm_status = PENDING, orm_description = create_description payload,
                 orm_created_at = utcnow\<rparr>
      in if payment_id \<in> set (map orm_id db) then Inl (Uncaught IntegrityError)
         else if \<bar>amount_cents orm\<bar> \<ge> 2 ^ 63 then Inl (Uncaught OverflowError)
         else Inr (db @ [orm], payment_read orm))"

text \<open>The request \<open>POST /payments\<close>: the body is validated, then the handler runs.\<close>

definition post_payments :: "PaymentORM list \<Rightarrow> string \<Rightarrow> int \<Rightarrow> PaymentCreate \<Rightarrow> http_error + (PaymentORM list \<times> PaymentRead)" where
  "post_payments db payment_id utcnow payload =
     (case validate_amount (create_amount payload) of
        Inl e \<Rightarrow> Inl e
      | Inr amount \<Rightarrow> create_payment db payment_id utcnow payload)"

definition get_payment :: "PaymentORM list \<Rightarrow> string \<Rightarrow> http_error + PaymentRead" where
  "get_payment db payment_id =
     (case scalar_one db payment_id of
        Inl e \<Rightarrow> Inl e
      | Inr result \<Rightarrow> Inr (payment_read result))"

text \<open>
  Three amounts as floats: the ones nearest to \<open>12.34\<close>, to \<open>12.340000001\<close> and to
  \<open>12.345\<close>.
\<close>

definition float_12_34 :: rat where
  "float_12_34 = 3473401212609495 / 281474976710656"

definition float_12_340000001 :: rat where
  "float_12_340000001 = 1736700606445485 / 140737488355328"

definition float_12_345 :: rat where
  "float_12_345 = 6949617174986097 / 562949953421312"

definition example_create :: "rat \<Rightarrow> PaymentCreate" where
  "example_create amount =
     \<lparr>create_amount = amount, create_currency = ''USD'', create_method = ''card'',
      create_description = None\<rparr>"

text \<open>Five payments for the paging example of the specification.\<close>

definition example_payment :: "string \<Rightarrow> string \<Rightarrow> int \<Rightarrow> PaymentORM" where
  "example_payment i st t =
     \<lparr>orm_id = i, amount_cents = 1234, orm_currency = ''USD'', orm_method = ''card'',
      orm_status = st, orm_description = None, orm_created_at = t\<rparr>"

definition example_payments :: "PaymentORM list" where
  "example_payments =
     [example_payment ''a'' ''pending'' 30, example_payment ''b'' ''failed'' 35,
      example_payment ''c'' ''pending'' 10, example_payment ''d'' ''pending'' 50,
      example_payment ''e'' ''pending'' 20, example_payment ''f'' ''pending'' 40]"


section \<open>Signature checks (app/routers/webhooks.py, app/routers/payments.py, app/services/razorpay_service.py)\<close>

text \<open>
  \<open>bytes\<close> are a \<open>string\<close>, one \<open>char\<close> for each byte. A header value reaches the
  handler decoded as Latin-1, one character for each byte, so it is a \<open>string\<close> as
  well. The secrets and the fields of a JSON body are \<open>str\<close> values, modelled by
  their UTF-8 encoding as before, so that \<open>s.encode("utf-8")\<close> is \<open>s\<close> itself.

  \<open>hmac.new(key, msg, hashlib.sha256)\<close> belongs to the standard library. The model takes
  the function from key and message to the MAC's bytes as the parameter \<open>mac\<close> of
  every definition that calls it; \<open>hexdigest\<close> writes each byte as two lower-case
  hexadecimal digits.
\<close>

type_synonym hmac_sha256 = "string \<Rightarrow> string \<Rightarrow> string"

definition hex_digit :: "nat \<Rightarrow> char" where
  "hex_digit n = ''0123456789abcdef'' ! n"

definition hex_byte :: "char \<Rightarrow> string" where
  "hex_byte c = (let n = (of_char c :: nat) in [hex_digit (n div 16), hex_digit (n mod 16)])"

definition hexdigest :: "hmac_sha256 \<Rightarrow> string \<Rightarrow> string \<Rightarrow> string" where
  "hexdigest mac key msg = concat (map hex_byte (mac key msg))"

text \<open>
  \<open>hmac.compare_digest(a, b)\<close> on two \<open>str\<close> values raises \<open>TypeError\<close> unless both
  are ASCII, and otherwise says whether they are equal.
\<close>

definition is_ascii :: "string \<Rightarrow> bool" where
  "is_ascii s = list_all (\<lambda>c. (of_char c :: nat) < 128) s"

definition compare_digest :: "string \<Rightarrow> string \<Rightarrow> py_error + bool" where
  "compare_digest a b = (if is_ascii a \<and> is_ascii b then Inr (a = b) else Inl TypeError)"

subsection \<open>String operations of the header parser\<close>



fun split :: "char \<Rightarrow> string \<Rightarrow> string list" where
  "split sep [] = [[]]"
| "split sep (c # cs) =
     (if c = sep then [] # split sep cs
      else case split sep cs of
             p # ps \<Rightarrow> (c # p) # ps
           | [] \<Rightarrow> [[c]])"









subsection \<open>Webhook router\<close>


text \<open>\<open>_verify_hmac_signature\<close>.\<close>

definition verify_hmac_signature :: "hmac_sha256 \<Rightarrow> string \<Rightarrow> string \<Rightarrow> string \<Rightarrow> py_error + bool" where
  "verify_hmac_signature mac payload signature secret =
     (if secret = [] \<or> signature = [] then Inr False
      else compare_digest (hexdigest mac secret payload) signature)"



text \<open>
  The two endpoints. The secret is the value of its environment variable, \<open>None\<close> if
  unset; \<open>if SECRET:\<close> holds for a non-empty one. \<open>json_loads\<close> is the parser of the
  body, \<open>None\<close> where it raises. The answer is \<open>{"received": True}\<close>, given with the
  event that goes to the background task. An exception of the check that no handler
  catches ends the request.
\<close>

record webhook_response =
  received :: bool

definition configured :: "string option \<Rightarrow> bool" where
  "configured secret = (case secret of None \<Rightarrow> False | Some s \<Rightarrow> s \<noteq> [])"

definition or_empty :: "string option \<Rightarrow> string" where
  "or_empty h = (case h of None \<Rightarrow> [] | Some s \<Rightarrow> s)"


definition generic_webhook ::
  "hmac_sha256 \<Rightarrow> (string \<Rightarrow> 'j option) \<Rightarrow> string option \<Rightarrow> string option \<Rightarrow> string
     \<Rightarrow> http_error + (webhook_response \<times> 'j)" where
  "generic_webhook mac json_loads webhook_secret signature raw_body =
     (case (if configured webhook_secret
            then verify_hmac_signature mac raw_body (or_empty signature) (or_empty webhook_secret)
            else Inr True) of
        Inl e \<Rightarrow> Inl (Uncaught e)
      | Inr ok \<Rightarrow>
          if \<not> ok then Inl (HTTPException 400 ''Invalid signature'')
          else case json_loads raw_body of
                 None \<Rightarrow> Inl (HTTPException 400 ''Invalid JSON'')
               | Some payload \<Rightarrow> Inr (\<lparr>received = True\<rparr>, payload))"

subsection \<open>Gateway router and service wrapper\<close>

record VerifyPaymentRequest =
  razorpay_payment_id :: string
  razorpay_order_id :: string
  razorpay_signature :: string

record VerifyPaymentResponse =
  valid :: bool
  reason :: "string option"

text \<open>
  \<open>verify_payment\<close> of the router. \<open>RAZORPAY_KEY_SECRET\<close> is a \<open>str\<close>, empty if the
  variable is unset. Whatever the comparison raises is caught and becomes the 500
  error \<open>Signature verification failed\<close>.
\<close>

definition verify_payment :: "hmac_sha256 \<Rightarrow> string \<Rightarrow> VerifyPaymentRequest \<Rightarrow> http_error + VerifyPaymentResponse" where
  "verify_payment mac razorpay_key_secret payload =
     (if razorpay_key_secret = []
      then Inl (HTTPException 500 ''Razorpay secret not configured'')
      else
        let message = razorpay_order_id payload @ ''|'' @ razorpay_payment_id payload
        in case compare_digest (hexdigest mac razorpay_key_secret message) (razorpay_signature payload) of
             Inl e \<Rightarrow> Inl (HTTPException 500 ''Signature verification failed'')
           | Inr v \<Rightarrow>
               if \<not> v then Inr \<lparr>valid = False, reason = Some ''signature_mismatch''\<rparr>
               else Inr \<lparr>valid = True, reason = None\<rparr>)"

text \<open>\<open>RazorpayService.verify_payment_signature\<close>; it has no handler around the comparison.\<close>

definition verify_payment_signature :: "hmac_sha256 \<Rightarrow> string \<Rightarrow> string \<Rightarrow> string \<Rightarrow> string \<Rightarrow> py_error + bool" where
  "verify_payment_signature mac key_secret order_id payment_id signature =
     compare_digest (hexdigest mac key_secret (order_id @ ''|'' @ payment_id)) signature"

text \<open>
  For the examples, which need a function in the place of \<open>mac\<close>: the key followed
  by the message read backwards. The theorems below hold for every \<open>mac\<close>.
\<close>

definition example_mac :: hmac_sha256 where
  "example_mac key msg = key @ rev msg"

text \<open>A parser for the examples, which accepts the empty JSON object only.\<close>

definition example_json_loads :: "string \<Rightarrow> string option" where
  "example_json_loads body = (if body = ''{}'' then Some body else None)"

section \<open>Account operations\<close>

lemma credit_result:
  assumes "db (pk self) = Some b"
  shows "credit db self amount =
           (if amount < 0 then Inl (ValueError ''credit amount must be non-negative'')
            else Inr (db(pk self \<mapsto> b + amount), self\<lparr>balance := b + amount\<rparr>, b + amount))"
  using assms by (simp add: credit_def)

lemma debit_result:
  assumes "db (pk self) = Some b"
  shows "debit db self amount =
           (if amount < 0 then Inl (ValueError ''debit amount must be non-negative'')
            else if b < amount then Inl (ValueError ''insufficient funds'')
            else Inr (db(pk self \<mapsto> b - amount), self\<lparr>balance := b - amount\<rparr>, b - amount))"
  using assms by (simp add: debit_def Let_def)

text \<open>
  C9. The insufficient-funds check of \<open>Account.debit\<close> is strict: with the account's
  row holding balance \<open>b\<close> and \<open>0 \<le> amount \<le> b\<close>, the debit succeeds, stores and returns
  \<open>b - amount\<close>; a debit of exactly \<open>b\<close> leaves zero; and a debit or a credit of zero
  succeeds and leaves the stored balance as it was.
\<close>

theorem debit_strict_check:
  assumes "db (pk self) = Some b" and "0 \<le> amount" and "amount \<le> b"
  shows "debit db self amount = Inr (db(pk self \<mapsto> b - amount), self\<lparr>balance := b - amount\<rparr>, b - amount)
       \<and> debit db self b = Inr (db(pk self \<mapsto> 0), self\<lparr>balance := 0\<rparr>, 0)
       \<and> debit db self 0 = Inr (db, self\<lparr>balance := b\<rparr>, b)
       \<and> credit db self 0 = Inr (db, self\<lparr>balance := b\<rparr>, b)"
proof -
  have same: "db(pk self \<mapsto> b) = db"
    using assms(1) by (rule map_upd_triv)
  have nonneg: "0 \<le> b"
    using assms(2,3) by simp
  have "debit db self amount = Inr (db(pk self \<mapsto> b - amount), self\<lparr>balance := b - amount\<rparr>, b - amount)"
    using assms by (simp add: debit_result)
  moreover have "debit db self b = Inr (db(pk self \<mapsto> 0), self\<lparr>balance := 0\<rparr>, 0)"
    using assms(1) nonneg by (simp add: debit_result)
  moreover have "debit db self 0 = Inr (db, self\<lparr>balance := b\<rparr>, b)"
    using assms(1) nonneg same by (simp add: debit_result)
  moreover have "credit db self 0 = Inr (db, self\<lparr>balance := b\<rparr>, b)"
    using assms(1) same by (simp add: credit_result)
  ultimately show ?thesis by simp
qed

theorem debit_strict_check_witness:
  "debit [7 \<mapsto> 10000] \<lparr>pk = 7, balance = 10000\<rparr> 2500
     = Inr ([7 \<mapsto> 7500], \<lparr>pk = 7, balance = 7500\<rparr>, 7500)
   \<and> debit [7 \<mapsto> 10000] \<lparr>pk = 7, balance = 10000\<rparr> 10000
     = Inr ([7 \<mapsto> 0], \<lparr>pk = 7, balance = 0\<rparr>, 0)
   \<and> debit [7 \<mapsto> 10000] \<lparr>pk = 7, balance = 10000\<rparr> 0
     = Inr ([7 \<mapsto> 10000], \<lparr>pk = 7, balance = 10000\<rparr>, 10000)
   \<and> credit [7 \<mapsto> 10000] \<lparr>pk = 7, balance = 10000\<rparr> 0
     = Inr ([7 \<mapsto> 10000], \<lparr>pk = 7, balance = 10000\<rparr>, 10000)"
  using debit_strict_check [of "[7 \<mapsto> 10000]" "\<lparr>pk = 7, balance = 10000\<rparr>" 10000 2500]
  by simp

lemma run_ops_invariant:
  assumes "db (pk self) = Some b" and "0 \<le> b" and "run_ops db self ops = (outs, db', self')"
  shows "pk self' = pk self
       \<and> length outs = length ops
       \<and> (\<forall>(ok, v) \<in> set outs. \<exists>x. v = Some x \<and> 0 \<le> x)
       \<and> db' (pk self) = Some (b + credited ops outs - debited ops outs)"
  using assms
proof (induction ops arbitrary: db self b outs)
  case Nil
  then show ?case by simp
next
  case (Cons x xs)
  show ?case
  proof (cases "apply_op db self x")
    case (Inl e)
    then obtain outs0 where run: "run_ops db self xs = (outs0, db', self')"
      and outs: "outs = (False, db (pk self)) # outs0"
      using Cons.prems(3) by (auto split: prod.splits)
    from Cons.IH [OF Cons.prems(1,2) run] Cons.prems(1,2) outs
    show ?thesis by (cases x) auto
  next
    case (Inr r)
    then obtain db1 self1 b1 where r: "apply_op db self x = Inr (db1, self1, b1)"
      by (cases r) auto
    then obtain outs0 where run: "run_ops db1 self1 xs = (outs0, db', self')"
      and outs: "outs = (True, db1 (pk self)) # outs0"
      using Cons.prems(3) by (auto split: prod.splits)
    have step: "pk self1 = pk self \<and> db1 (pk self) = Some b1 \<and> 0 \<le> b1
        \<and> b1 = b + (case x of Credit n \<Rightarrow> n | Debit n \<Rightarrow> - n)"
      using r Cons.prems(2) Cons.prems(1)
        credit_result [of db self b] debit_result [of db self b]
      by (cases x) (auto split: if_splits)
    then have "db1 (pk self1) = Some b1" "0 \<le> b1" by simp_all
    from Cons.IH [OF this run] step outs
    show ?thesis by (cases x) auto
  qed
qed

text \<open>
  C3. Take an account whose row holds a balance \<open>b \<ge> 0\<close> and any sequence of credits
  and debits on it. The stored balance after every operation is non-negative, and the
  final stored balance is \<open>b\<close> plus the amounts of the successful credits minus the
  amounts of the successful debits. A negative amount is rejected by both methods with
  their \<open>ValueError\<close>, and a debit of more than the balance fails with
  \<open>insufficient funds\<close> and leaves the database as it was.
\<close>

theorem account_ops_balance:
  assumes "db (pk self) = Some b" and "0 \<le> b" and "run_ops db self ops = (outs, db', self')"
  shows "length outs = length ops
       \<and> (\<forall>(ok, v) \<in> set outs. \<exists>x. v = Some x \<and> 0 \<le> x)
       \<and> db' (pk self) = Some (b + credited ops outs - debited ops outs)
       \<and> (\<forall>n<0. credit db self n = Inl (ValueError ''credit amount must be non-negative'')
                \<and> debit db self n = Inl (ValueError ''debit amount must be non-negative''))
       \<and> (\<forall>n>b. debit db self n = Inl (ValueError ''insufficient funds'')
                \<and> run_ops db self [Debit n] = ([(False, Some b)], db, self))"
proof -
  have neg: "\<forall>n<0. credit db self n = Inl (ValueError ''credit amount must be non-negative'')
                \<and> debit db self n = Inl (ValueError ''debit amount must be non-negative'')"
    by (simp add: credit_def debit_def)
  have over: "\<forall>n>b. debit db self n = Inl (ValueError ''insufficient funds'')
                \<and> run_ops db self [Debit n] = ([(False, Some b)], db, self)"
    using assms(1,2) by (simp add: debit_result)
  note inv = run_ops_invariant [OF assms]
  have len: "length outs = length ops"
    using inv by (rule conjunct1 [OF conjunct2])
  have nonneg: "\<forall>(ok, v) \<in> set outs. \<exists>x. v = Some x \<and> 0 \<le> x"
    using inv by (rule conjunct1 [OF conjunct2 [OF conjunct2]])
  have final: "db' (pk self) = Some (b + credited ops outs - debited ops outs)"
    using inv by (rule conjunct2 [OF conjunct2 [OF conjunct2]])
  show ?thesis
    by (intro conjI len nonneg final neg over)
qed

theorem account_ops_balance_witness:
  "run_ops [7 \<mapsto> 10000] \<lparr>pk = 7, balance = 10000\<rparr>
       [Credit 2500, Debit 20000, Debit (- 1), Debit 12500, Credit (- 5), Credit 300]
     = ([(True, Some 12500), (False, Some 12500), (False, Some 12500),
         (True, Some 0), (False, Some 0), (True, Some 300)],
        [7 \<mapsto> 300], \<lparr>pk = 7, balance = 300\<rparr>)
   \<and> [7 \<mapsto> (300::int)] 7 = Some (10000 + (2500 + 300) - 12500)
   \<and> debit [7 \<mapsto> 10000] \<lparr>pk = 7, balance = 10000\<rparr> 10001 = Inl (ValueError ''insufficient funds'')"
proof -
  have run: "run_ops [7 \<mapsto> 10000] \<lparr>pk = 7, balance = 10000\<rparr>
       [Credit 2500, Debit 20000, Debit (- 1), Debit 12500, Credit (- 5), Credit 300]
     = ([(True, Some 12500), (False, Some 12500), (False, Some 12500),
         (True, Some 0), (False, Some 0), (True, Some 300)],
        [7 \<mapsto> 300], \<lparr>pk = 7, balance = 300\<rparr>)"
    by (simp add: credit_def debit_def)
  have row: "[7 \<mapsto> (10000::int)] (pk \<lparr>pk = 7, balance = 10000\<rparr>) = Some 10000"
    by simp
  from account_ops_balance [OF row _ run] run show ?thesis by simp
qed

section \<open>Refund processing\<close>

text \<open>
  What \<open>process\<close> does to the status: when it succeeds, the transaction is
  \<open>STATUS_REFUNDED\<close> exactly when the amounts of all the refunds recorded against it,
  processed or not, add up to at least its amount; otherwise it stays as it was.
\<close>

lemma process_status:
  assumes "process now db self = Inr (db', self')"
    and "transactions db (transaction_id self) = Some tx"
  shows "tx_status tx = STATUS_COMPLETED"
    and "transactions db' (transaction_id self) =
           Some (if tx_amount tx \<le> sum_list (map refund_amount (refunds_all (refunds db) (transaction_id self)))
                 then tx\<lparr>tx_status := STATUS_REFUNDED\<rparr> else tx)"
proof -
  have amounts: "map refund_amount (refunds_all (map (\<lambda>r. if refund_id r = k then r\<lparr>processed_at := t\<rparr> else r) rows) i)
      = map refund_amount (refunds_all rows i)" for k t rows i
    by (induction rows) (simp_all add: refunds_all_def)
  show "tx_status tx = STATUS_COMPLETED"
    using assms by (auto simp: process_def split: if_splits option.splits)
  show "transactions db' (transaction_id self) =
           Some (if tx_amount tx \<le> sum_list (map refund_amount (refunds_all (refunds db) (transaction_id self)))
                 then tx\<lparr>tx_status := STATUS_REFUNDED\<rparr> else tx)"
    using assms by (auto simp: process_def Let_def amounts split: if_splits option.splits)
qed

text \<open>
  C1. In the ledger of the scenario the first refund is processed while the second is
  only recorded. \<open>process\<close> succeeds and marks the transaction \<open>STATUS_REFUNDED\<close>,
  although the processed refunds add up to \<open>60.00\<close>, less than the \<open>100.00\<close> of the
  transaction; the second refund can then no longer be processed.
\<close>

theorem process_counts_unprocessed_refunds:
  "(case process 5 two_refunds_ledger refund_a of
      Inl e \<Rightarrow> False
    | Inr (db', self') \<Rightarrow>
        map_option tx_status (transactions db' 10) = Some STATUS_REFUNDED
      \<and> map_option tx_amount (transactions db' 10) = Some 10000
      \<and> spec_processed_total db' 10 = 6000
      \<and> accounts db' 1 = Some 6000 \<and> accounts db' 2 = Some 14000
      \<and> map processed_at (refunds db') = [Some 5, None]
      \<and> process 6 db' refund_b = Inl (ValueError ''can only refund completed transactions''))"
  by (simp add: process_def two_refunds_ledger_def refund_a_def refund_b_def
      refunds_all_def spec_processed_total_def)

section \<open>Payment status transitions\<close>

lemma allowed_from_eq:
  "allowed_from c = (if c = ''pending'' then {''completed'', ''failed'', ''refunded''}
                     else if c = ''completed'' then {''refunded''} else {})"
  by (simp add: allowed_from_def allowed_transitions_def PENDING_def COMPLETED_def
      FAILED_def REFUNDED_def)

text \<open>
  C2. For a payment that exists, with current status \<open>c\<close>, and a requested status \<open>s\<close>
  among the four names, \<open>update_payment\<close> succeeds exactly when \<open>(c, s)\<close> is one of
  pending-completed, pending-failed, pending-refunded, completed-refunded, or \<open>s = c\<close>;
  it then stores \<open>s\<close> and returns the record with status \<open>s\<close>. Every other pair ends in
  the 400 error whose detail names \<open>c\<close> and \<open>s\<close>, and nothing is written.
\<close>

theorem update_payment_transitions:
  assumes "filter (\<lambda>r. orm_id r = payment_id) db = [row]"
    and "s \<in> {''pending'', ''completed'', ''failed'', ''refunded''}"
    and "row1 = (case d of None \<Rightarrow> row | Some x \<Rightarrow> row\<lparr>orm_description := Some x\<rparr>)"
  shows "update_payment db payment_id \<lparr>upd_description = d, upd_status = Some s\<rparr> =
     (if (orm_status row, s) \<in> {(''pending'', ''completed''), (''pending'', ''failed''),
                                 (''pending'', ''refunded''), (''completed'', ''refunded'')}
         \<or> s = orm_status row
      then Inr (map (\<lambda>r. if orm_id r = payment_id then row1\<lparr>orm_status := s\<rparr> else r) db,
                payment_read (row1\<lparr>orm_status := s\<rparr>))
      else Inl (HTTPException 400
             (''invalid status transition from '' @ orm_status row @ '' to '' @ s)))"
proof -
  have cur: "orm_status row1 = orm_status row"
    using assms(3) by (cases d) simp_all
  show ?thesis
    using assms(1,2) cur
    by (auto simp: update_payment_def scalar_one_def allowed_from_eq Let_def assms(3) [symmetric])
qed

theorem update_payment_transitions_witness:
  "update_payment example_payments ''a'' \<lparr>upd_description = None, upd_status = Some ''completed''\<rparr>
     = Inr ([example_payment ''a'' ''completed'' 30, example_payment ''b'' ''failed'' 35,
             example_payment ''c'' ''pending'' 10, example_payment ''d'' ''pending'' 50,
             example_payment ''e'' ''pending'' 20, example_payment ''f'' ''pending'' 40],
            payment_read (example_payment ''a'' ''completed'' 30))
   \<and> update_payment example_payments ''b'' \<lparr>upd_description = None, upd_status = Some ''pending''\<rparr>
     = Inl (HTTPException 400 ''invalid status transition from failed to pending'')
   \<and> update_payment example_payments ''b'' \<lparr>upd_description = None, upd_status = Some ''failed''\<rparr>
     = Inr (example_payments, payment_read (example_payment ''b'' ''failed'' 35))"
proof -
  have a: "filter (\<lambda>r. orm_id r = ''a'') example_payments = [example_payment ''a'' ''pending'' 30]"
    by (simp add: example_payments_def example_payment_def)
  have b: "filter (\<lambda>r. orm_id r = ''b'') example_payments = [example_payment ''b'' ''failed'' 35]"
    by (simp add: example_payments_def example_payment_def)
  from update_payment_transitions [OF a, of "''completed''" _ None]
    update_payment_transitions [OF b, of "''pending''" _ None]
    update_payment_transitions [OF b, of "''failed''" _ None]
  show ?thesis
    by (simp add: example_payments_def example_payment_def)
qed

section \<open>Listing payments\<close>





section \<open>Signatures\<close>

lemma hex_digit_ascii: "n < 16 \<Longrightarrow> (of_char (hex_digit n) :: nat) < 128"
proof -
  assume "n < 16"
  then have "n \<in> {0, 1, 2, 3, 4, 5, 6, 7, 8, 9, 10, 11, 12, 13, 14, 15}"
    by (simp add: numeral_eq_Suc less_Suc_eq)
  then show ?thesis
    unfolding hex_digit_def by (elim insertE emptyE) simp_all
qed

lemma is_ascii_hex_byte: "is_ascii (hex_byte c)"
proof -
  have "(of_char c :: nat) < 16 * 16"
    by simp
  then have "(of_char c :: nat) div 16 < 16"
    by (rule less_mult_imp_div_less)
  then show ?thesis
    by (simp add: hex_byte_def is_ascii_def Let_def hex_digit_ascii)
qed

lemma is_ascii_concat: "(\<forall>x \<in> set xs. is_ascii x) \<Longrightarrow> is_ascii (concat xs)"
  by (induction xs) (simp_all add: is_ascii_def)

lemma is_ascii_hexdigest: "is_ascii (hexdigest mac key msg)"
  unfolding hexdigest_def by (rule is_ascii_concat) (auto simp: is_ascii_hex_byte)

text \<open>
  C10. With the generic secret configured, a request to the generic endpoint whose
  \<open>X-Signature\<close> header is absent or empty is answered with the 400 error
  \<open>Invalid signature\<close>, whatever the body: \<open>_verify_hmac_signature\<close> returns \<open>False\<close>
  for the empty signature before any digest is compared.
\<close>

theorem generic_webhook_missing_signature:
  assumes "secret \<noteq> []" and "signature = None \<or> signature = Some []"
  shows "generic_webhook mac json_loads (Some secret) signature raw_body
           = Inl (HTTPException 400 ''Invalid signature'')
       \<and> verify_hmac_signature mac raw_body [] secret = Inr False"
  using assms
  by (auto simp: generic_webhook_def configured_def or_empty_def verify_hmac_signature_def)

theorem generic_webhook_missing_signature_witness:
  "generic_webhook example_mac example_json_loads (Some ''whsec'') None ''{}''
     = Inl (HTTPException 400 ''Invalid signature'')
   \<and> generic_webhook example_mac example_json_loads (Some ''whsec'') (Some []) ''{}''
     = Inl (HTTPException 400 ''Invalid signature'')"
  using generic_webhook_missing_signature [of "''whsec''" None example_mac example_json_loads "''{}''"]
    generic_webhook_missing_signature [of "''whsec''" "Some []" example_mac example_json_loads "''{}''"]
  by simp

text \<open>
  The claim C6 as stated fails for a signature that is not ASCII: the signature of
  the one letter e with an acute accent (the bytes C3 A9 in UTF-8) is not the digest,
  yet the answer is the 500 error of the handler around the comparison and not
  \<open>signature_mismatch\<close>.
\<close>

theorem verify_payment_non_ascii_counterexample:
  "[CHR 0xC3, CHR 0xA9] \<noteq> hexdigest example_mac ''s3cret'' (''order_1'' @ ''|'' @ ''pay_1'')
   \<and> verify_payment example_mac ''s3cret''
         \<lparr>razorpay_payment_id = ''pay_1'', razorpay_order_id = ''order_1'',
          razorpay_signature = [CHR 0xC3, CHR 0xA9]\<rparr>
       = Inl (HTTPException 500 ''Signature verification failed'')"
  by (simp add: verify_payment_def compare_digest_def is_ascii_def hexdigest_def
      example_mac_def hex_byte_def hex_digit_def)

text \<open>
  C6, amended. With a gateway secret configured, \<open>verify_payment\<close> returns
  \<open>{valid: true}\<close> exactly when the submitted signature is the lower-case hexadecimal
  digest of \<open>"{order_id}|{payment_id}"\<close> under the secret; for every other signature
  made of ASCII characters only it returns \<open>{valid: false, reason: "signature_mismatch"}\<close>;
  for a signature with a character outside ASCII it fails with the 500 error
  \<open>Signature verification failed\<close>. With no secret it fails with the 500 error
  \<open>Razorpay secret not configured\<close>.
\<close>

theorem verify_payment_outcomes:
  assumes "secret \<noteq> []"
    and "expected = hexdigest mac secret (razorpay_order_id payload @ ''|'' @ razorpay_payment_id payload)"
  shows "verify_payment mac secret payload =
           (if razorpay_signature payload = expected then Inr \<lparr>valid = True, reason = None\<rparr>
            else if is_ascii (razorpay_signature payload)
                 then Inr \<lparr>valid = False, reason = Some ''signature_mismatch''\<rparr>
            else Inl (HTTPException 500 ''Signature verification failed''))
       \<and> verify_payment mac [] payload = Inl (HTTPException 500 ''Razorpay secret not configured'')"
  using assms is_ascii_hexdigest [of mac secret "razorpay_order_id payload @ ''|'' @ razorpay_payment_id payload"]
  by (auto simp: verify_payment_def compare_digest_def Let_def)

theorem verify_payment_outcomes_witness:
  "verify_payment example_mac ''s3cret''
         \<lparr>razorpay_payment_id = ''pay_1'', razorpay_order_id = ''order_1'',
          razorpay_signature = ''733363726574315f7961707c315f726564726f''\<rparr>
       = Inr \<lparr>valid = True, reason = None\<rparr>
   \<and> verify_payment example_mac ''s3cret''
         \<lparr>razorpay_payment_id = ''pay_1'', razorpay_order_id = ''order_1'',
          razorpay_signature = ''733363726574315f7961707c315f726564726F''\<rparr>
       = Inr \<lparr>valid = False, reason = Some ''signature_mismatch''\<rparr>
   \<and> verify_payment example_mac ''''
         \<lparr>razorpay_payment_id = ''pay_1'', razorpay_order_id = ''order_1'',
          razorpay_signature = ''733363726574315f7961707c315f726564726f''\<rparr>
       = Inl (HTTPException 500 ''Razorpay secret not configured'')"
proof -
  have d: "hexdigest example_mac ''s3cret'' (''order_1'' @ ''|'' @ ''pay_1'')
      = ''733363726574315f7961707c315f726564726f''"
    by (simp add: hexdigest_def example_mac_def hex_byte_def hex_digit_def)
  have a: "is_ascii ''733363726574315f7961707c315f726564726F''"
    by (simp add: is_ascii_def)
  from verify_payment_outcomes [of "''s3cret''" _ example_mac
      "\<lparr>razorpay_payment_id = ''pay_1'', razorpay_order_id = ''order_1'',
        razorpay_signature = ''733363726574315f7961707c315f726564726f''\<rparr>", OF _ refl]
    verify_payment_outcomes [of "''s3cret''" _ example_mac
      "\<lparr>razorpay_payment_id = ''pay_1'', razorpay_order_id = ''order_1'',
        razorpay_signature = ''733363726574315f7961707c315f726564726F''\<rparr>", OF _ refl]
    d a
  show ?thesis by simp
qed

section \<open>Stripe-style webhook\<close>






end
